theory Spec2Isabelle
  imports Main "HOL-Library.Sublist"
begin

section \<open>The \<open>pl-code\<close> element: a shallow embedding of \<open>pl-code.py\<close>\<close>

text \<open>
  Python strings are modelled as \<^typ>\<open>string\<close>; a \<^typ>\<open>char\<close> stands for one code
  point below 256. Python's unbounded integers are \<^typ>\<open>int\<close>, Python's \<open>None\<close> is
  \<^const>\<open>None\<close>, and a raised exception is the \<^const>\<open>Inl\<close> branch of a sum.
\<close>

subsection \<open>Characters used by the source\<close>

definition NL :: char where "NL = CHR 0x0A"
definition CR :: char where "CR = CHR 0x0D"
definition DQ :: char where "DQ = CHR 0x22"
definition SQ :: char where "SQ = CHR 0x27"

subsection \<open>Module constants\<close>

definition LANGUAGE_DEFAULT :: "string option" where
  "LANGUAGE_DEFAULT = None"

definition SOURCE_FILE_NAME_DEFAULT :: "string option" where
  "SOURCE_FILE_NAME_DEFAULT = None"

definition HIGHLIGHT_LINES_DEFAULT :: "string option" where
  "HIGHLIGHT_LINES_DEFAULT = None"

definition HIGHLIGHT_LINES_COLOR_DEFAULT :: string where
  "HIGHLIGHT_LINES_COLOR_DEFAULT = ''#b3d7ff''"

subsection \<open>\<open>NoHighlightingLexer\<close>\<close>

text \<open>
  The top-level token types of pygments. The source only ever builds \<open>Token.Text\<close>.
\<close>

datatype token_type =
  Token_Text | Token_Whitespace | Token_Escape | Token_Error | Token_Other
  | Token_Keyword | Token_Name | Token_Literal | Token_String | Token_Number
  | Token_Punctuation | Token_Operator | Token_Comment | Token_Generic

text \<open>
  \<open>get_tokens_unprocessed(self, text)\<close> returns the one-element list
  \<open>[(0, Token.Text, text)]\<close>: start index, token type, text.
\<close>

definition get_tokens_unprocessed :: "string \<Rightarrow> (nat \<times> token_type \<times> string) list" where
  "get_tokens_unprocessed text = [(0, Token_Text, text)]"

subsection \<open>\<open>HighlightingHtmlFormatter\<close>\<close>

text \<open>
  The two fields of the formatter that \<open>_highlight_lines\<close> reads. \<open>hl_lines\<close> is the set
  of line numbers that the base class keeps from the \<open>hl_lines\<close> option; \<open>hl_color\<close> is
  set by the constructor of the subclass.
\<close>

record formatter =
  hl_lines :: "int set"
  hl_color :: string

text \<open>\<open>self.hl_color = options.get('hl_color', HIGHLIGHT_LINES_COLOR_DEFAULT)\<close>\<close>

definition init_hl_color :: "string option \<Rightarrow> string" where
  "init_hl_color opt = (case opt of Some c \<Rightarrow> c | None \<Rightarrow> HIGHLIGHT_LINES_COLOR_DEFAULT)"

text \<open>
  The f-string
  \<open><span class="pl-code-highlighted-line" style="background-color: {self.hl_color}">{value}</span>\<close>.
\<close>

definition highlighted_span :: "string \<Rightarrow> string \<Rightarrow> string" where
  "highlighted_span color val =
     ''<span class='' @ [DQ] @ ''pl-code-highlighted-line'' @ [DQ] @
     '' style='' @ [DQ] @ ''background-color: '' @ color @ [DQ] @ ''>'' @ val @ ''</span>''"

text \<open>
  \<open>_highlight_lines(self, tokensource)\<close>: a generator over
  \<open>enumerate(tokensource)\<close>. The counter \<open>i\<close> of \<open>enumerate\<close> is the second argument; the
  yielded pairs are returned as a list, in the order they are yielded.
\<close>

fun highlight_lines_from ::
  "formatter \<Rightarrow> nat \<Rightarrow> (int \<times> string) list \<Rightarrow> (int \<times> string) list" where
  "highlight_lines_from f i [] = []"
| "highlight_lines_from f i ((t, val) # rest) =
     (if t \<noteq> 1 then [(t, val)] else []) @
     (if int i + 1 \<in> hl_lines f
      then [(1, highlighted_span (hl_color f) val)]
      else [(1, val)]) @
     highlight_lines_from f (Suc i) rest"

definition highlight_lines :: "formatter \<Rightarrow> (int \<times> string) list \<Rightarrow> (int \<times> string) list" where
  "highlight_lines f tokensource = highlight_lines_from f 0 tokensource"

subsection \<open>Chopping ending newlines in \<open>render\<close>\<close>

text \<open>Python's slice \<open>s[:-k]\<close> for \<open>k > 0\<close>: all but the last \<open>k\<close> items, empty when \<open>s\<close> is short.\<close>

definition slice_to_neg :: "nat \<Rightarrow> 'a list \<Rightarrow> 'a list" where
  "slice_to_neg k s = take (length s - k) s"

text \<open>
  The two \<open>if\<close> statements after the comment \<open># Chop off ending newlines\<close> in the branch of
  \<open>render\<close> that reads the code from a file.
\<close>

definition chop_ending_newlines :: "string \<Rightarrow> string" where
  "chop_ending_newlines code =
     (let code1 = (if slice_to_neg 2 code = [CR, NL] then slice_to_neg 2 code else code);
          code2 = (if slice_to_neg 1 code1 = [NL] then slice_to_neg 1 code1 else code1)
      in code2)"

subsection \<open>Python built-ins used by \<open>parse_highlight_lines\<close> and \<open>prepare\<close>\<close>

text \<open>
  The characters below 256 for which \<open>str.isspace\<close> holds; \<open>str.strip()\<close> removes exactly
  these from both ends.
\<close>

definition isspace_char :: "char \<Rightarrow> bool" where
  "isspace_char c \<longleftrightarrow>
     c \<in> {CHR 0x09, CHR 0x0A, CHR 0x0B, CHR 0x0C, CHR 0x0D,
          CHR 0x1C, CHR 0x1D, CHR 0x1E, CHR 0x1F, CHR 0x20, CHR 0x85, CHR 0xA0}"

text \<open>\<open>s.isspace()\<close>: false on the empty string.\<close>

definition py_isspace :: "string \<Rightarrow> bool" where
  "py_isspace s \<longleftrightarrow> s \<noteq> [] \<and> list_all isspace_char s"

text \<open>\<open>s.strip()\<close>\<close>

definition py_strip :: "string \<Rightarrow> string" where
  "py_strip s = rev (dropWhile isspace_char (rev (dropWhile isspace_char s)))"

text \<open>
  \<open>s.split(sep)\<close> for a separator of one character: the pieces between the separators,
  empty pieces kept, never an empty list.
\<close>

fun py_split :: "string \<Rightarrow> char \<Rightarrow> string list" where
  "py_split [] sep = [[]]"
| "py_split (c # cs) sep =
     (if c = sep then [] # py_split cs sep
      else (c # hd (py_split cs sep)) # tl (py_split cs sep))"

text \<open>
  \<open>int(s)\<close> in base 10, with \<open>ValueError\<close> as \<^const>\<open>None\<close>: whitespace around the
  literal is skipped (the characters below, which are not all of \<open>str.isspace\<close>), then an
  optional sign, then decimal digits, where single underscores may stand between digits.
  The limit on the number of digits of recent Python versions is not modelled.
\<close>

definition int_space_char :: "char \<Rightarrow> bool" where
  "int_space_char c \<longleftrightarrow>
     c \<in> {CHR 0x09, CHR 0x0A, CHR 0x0B, CHR 0x0C, CHR 0x0D, CHR 0x20, CHR 0x85, CHR 0xA0}"

definition is_digit :: "char \<Rightarrow> bool" where
  "is_digit c \<longleftrightarrow> c \<in> set ''0123456789''"

definition digit_val :: "char \<Rightarrow> int" where
  "digit_val c = int (of_char c) - 48"

definition decimal :: "string \<Rightarrow> int" where
  "decimal ds = foldl (\<lambda>acc c. 10 * acc + digit_val c) 0 ds"

fun int_body :: "string \<Rightarrow> bool" where
  "int_body [] = False"
| "int_body [c] = is_digit c"
| "int_body (c # d # r) =
     (is_digit c \<and> (if d = CHR ''_'' then int_body r else int_body (d # r)))"

definition py_digits :: "string \<Rightarrow> int option" where
  "py_digits body =
     (if int_body body then Some (decimal (filter (\<lambda>c. c \<noteq> CHR ''_'') body)) else None)"

definition py_int :: "string \<Rightarrow> int option" where
  "py_int s =
     (case rev (dropWhile int_space_char (rev (dropWhile int_space_char s))) of
        [] \<Rightarrow> None
      | c # r \<Rightarrow>
          if c = CHR ''-'' then map_option uminus (py_digits r)
          else if c = CHR ''+'' then py_digits r
          else py_digits (c # r))"

subsection \<open>\<open>parse_highlight_lines\<close>\<close>

text \<open>
  The \<open>for\<close> loop over \<open>components\<close>, with the list \<open>lines\<close> built so far as the second
  argument. \<open>return None\<close> is \<^const>\<open>None\<close>; \<open>range(start, end + 1)\<close> is \<open>[start..end]\<close>,
  empty when \<open>end < start\<close>.
\<close>

fun parse_components :: "string list \<Rightarrow> int list \<Rightarrow> int list option" where
  "parse_components [] lines = Some lines"
| "parse_components (component # components) lines =
     (let component = py_strip component in
      case py_int component of
        Some line \<Rightarrow> parse_components components (lines @ [line])
      | None \<Rightarrow>
          (let numbers = py_split component (CHR ''-'') in
           if length numbers \<noteq> 2 then None
           else
             (case py_int (numbers ! 0) of
                None \<Rightarrow> None
              | Some start \<Rightarrow>
                  (case py_int (numbers ! 1) of
                     None \<Rightarrow> None
                   | Some stop \<Rightarrow> parse_components components (lines @ [start..stop])))))"

definition parse_highlight_lines :: "string \<Rightarrow> int list option" where
  "parse_highlight_lines spec = parse_components (py_split spec (CHR '','')) []"

subsection \<open>\<open>prepare\<close>\<close>

datatype py_exception = Exception string | TypeError string | IndexError string

text \<open>The parsed element: its attributes and its \<open>text\<close> (\<open>None\<close> when there is none).\<close>

record element =
  el_attrib :: "(string \<times> string) list"
  el_text :: "string option"

text \<open>An entry of \<open>pygments.lexers.get_all_lexers()\<close>: name, aliases, filenames, mimetypes.\<close>

type_synonym lexer_info = "string \<times> string list \<times> string list \<times> string list"

text \<open>
  What \<open>prepare\<close> calls outside this file, as parameters: \<open>pl.check_attribs\<close> (the
  exception it raises, if any), \<open>pl.get_string_attrib\<close>, whether
  \<open>pygments.lexers.get_lexer_by_name\<close> finds a lexer (otherwise it raises
  \<open>ClassNotFound\<close>), and the entries of \<open>pygments.lexers.get_all_lexers()\<close>.
\<close>

record env =
  check_attribs :: "element \<Rightarrow> string list \<Rightarrow> string list \<Rightarrow> py_exception option"
  get_string_attrib :: "element \<Rightarrow> string \<Rightarrow> string option \<Rightarrow> string option"
  get_lexer_by_name :: "string \<Rightarrow> bool"
  get_all_lexers :: "lexer_info list"

text \<open>
  The two kinds of Python object that the call of \<open>map\<close> in \<open>prepare\<close> receives: a
  function (the \<open>lambda\<close>) and a generator (the result of \<open>get_all_lexers()\<close>).
\<close>

datatype pyobj =
  Function "lexer_info \<Rightarrow> py_exception + string"
  | Generator "lexer_info list"

text \<open>
  The built-in \<open>map(function, iterable)\<close>: it takes an iterator of its second argument when
  it is called, which raises \<open>TypeError\<close> for a function; the first argument is called
  once for each item when the result is consumed.
\<close>

definition py_map :: "pyobj \<Rightarrow> pyobj \<Rightarrow> py_exception + (py_exception + string) list" where
  "py_map func iterable =
     (case iterable of
        Function _ \<Rightarrow> Inl (TypeError ([SQ] @ ''function'' @ [SQ] @ '' object is not iterable''))
      | Generator items \<Rightarrow>
          (case func of
             Function g \<Rightarrow> Inr (map g items)
           | Generator _ \<Rightarrow>
               Inr (map (\<lambda>_. Inl (TypeError ([SQ] @ ''generator'' @ [SQ] @
                                     '' object is not callable''))) items)))"

text \<open>\<open>sep.join(items)\<close> over the items of a \<open>map\<close> object: the first item that raises ends it.\<close>

fun py_join :: "string \<Rightarrow> (py_exception + string) list \<Rightarrow> py_exception + string" where
  "py_join sep [] = Inr []"
| "py_join sep [x] = x"
| "py_join sep (x # y # r) =
     (case x of
        Inl e \<Rightarrow> Inl e
      | Inr s \<Rightarrow> (case py_join sep (y # r) of Inl e \<Rightarrow> Inl e | Inr t \<Rightarrow> Inr (s @ sep @ t)))"

text \<open>\<open>lambda tup: tup[1][0]\<close>\<close>

definition first_alias :: "lexer_info \<Rightarrow> py_exception + string" where
  "first_alias tup =
     (case fst (snd tup) of
        [] \<Rightarrow> Inl (IndexError ''tuple index out of range'')
      | a # _ \<Rightarrow> Inr a)"

definition optional_attribs :: "string list" where
  "optional_attribs =
     [''language'', ''no-highlight'', ''source-file-name'', ''prevent-select'',
      ''highlight-lines'', ''highlight-lines-color'']"

text \<open>
  The three \<open>if\<close> blocks of \<open>prepare\<close>. Each gives the exception it raises, or
  \<^const>\<open>None\<close> when control falls through to the next statement.
\<close>

definition language_block :: "env \<Rightarrow> string option \<Rightarrow> py_exception option" where
  "language_block env language =
     (case language of
        None \<Rightarrow> None
      | Some l \<Rightarrow>
          if get_lexer_by_name env l then None
          else
            (case py_map (Generator (get_all_lexers env)) (Function first_alias) of
               Inl e \<Rightarrow> Some e
             | Inr allowed_languages \<Rightarrow>
                 (case py_join '','' allowed_languages of
                    Inl e \<Rightarrow> Some e
                  | Inr joined \<Rightarrow>
                      Some (Exception (''Unknown language: '' @ [DQ] @ l @ [DQ] @
                                       ''. Must be one of '' @ joined)))))"

definition source_file_block :: "string option \<Rightarrow> string option \<Rightarrow> py_exception option" where
  "source_file_block source_file_name element_text =
     (case source_file_name of
        None \<Rightarrow> None
      | Some _ \<Rightarrow>
          (case element_text of
             None \<Rightarrow> None
           | Some t \<Rightarrow>
               if \<not> py_isspace t
               then Some (Exception (''Existing code cannot be added inside html element when '' @
                            [DQ] @ ''source-file-name'' @ [DQ] @ '' attribute is used.''))
               else None))"

definition highlight_lines_block :: "string option \<Rightarrow> py_exception option" where
  "highlight_lines_block highlight_lines_attr =
     (case highlight_lines_attr of
        None \<Rightarrow> None
      | Some spec \<Rightarrow>
          if parse_highlight_lines spec = None
          then Some (Exception ''Could not parse highlight-lines attribute; check your syntax'')
          else None)"

definition prepare :: "env \<Rightarrow> element \<Rightarrow> py_exception + unit" where
  "prepare env element =
     (case check_attribs env element [] optional_attribs of
        Some e \<Rightarrow> Inl e
      | None \<Rightarrow>
     (case language_block env (get_string_attrib env element ''language'' LANGUAGE_DEFAULT) of
        Some e \<Rightarrow> Inl e
      | None \<Rightarrow>
     (case source_file_block
             (get_string_attrib env element ''source-file-name'' SOURCE_FILE_NAME_DEFAULT)
             (el_text element) of
        Some e \<Rightarrow> Inl e
      | None \<Rightarrow>
     (case highlight_lines_block
             (get_string_attrib env element ''highlight-lines'' HIGHLIGHT_LINES_DEFAULT) of
        Some e \<Rightarrow> Inl e
      | None \<Rightarrow> Inr ()))))"

section \<open>The terms of a highlight-lines specification\<close>

text \<open>
  The notions that the specification uses to describe \<open>parse_highlight_lines\<close>. The terms
  of a specification are the pieces between its commas. An integer is a string that
  \<open>int\<close> reads as a whole number. A term is a bare integer when, with the whitespace
  around it removed, it is an integer; it is two integers joined by one hyphen when, with
  the whitespace around it removed, it holds exactly one hyphen, with an integer before it
  and an integer after it.
\<close>

definition spec_terms :: "string \<Rightarrow> string list" where
  "spec_terms spec = py_split spec (CHR '','')"

definition is_integer :: "string \<Rightarrow> bool" where
  "is_integer s \<longleftrightarrow> py_int s \<noteq> None"

definition int_value :: "string \<Rightarrow> int" where
  "int_value s = (case py_int s of Some n \<Rightarrow> n | None \<Rightarrow> 0)"

definition before_hyphen :: "string \<Rightarrow> string" where
  "before_hyphen t = takeWhile (\<lambda>c. c \<noteq> CHR ''-'') t"

definition after_hyphen :: "string \<Rightarrow> string" where
  "after_hyphen t = drop 1 (dropWhile (\<lambda>c. c \<noteq> CHR ''-'') t)"

definition single_term :: "string \<Rightarrow> bool" where
  "single_term c \<longleftrightarrow> is_integer (py_strip c)"

definition range_term :: "string \<Rightarrow> bool" where
  "range_term c \<longleftrightarrow>
     count_list (py_strip c) (CHR ''-'') = 1 \<and>
     is_integer (before_hyphen (py_strip c)) \<and>
     is_integer (after_hyphen (py_strip c))"

definition wf_term :: "string \<Rightarrow> bool" where
  "wf_term c \<longleftrightarrow> single_term c \<or> range_term c"

text \<open>The first and the last line number of a range term.\<close>

definition range_start :: "string \<Rightarrow> int" where
  "range_start c = int_value (before_hyphen (py_strip c))"

definition range_end :: "string \<Rightarrow> int" where
  "range_end c = int_value (after_hyphen (py_strip c))"

text \<open>
  What a term denotes: a bare integer its number, a range term every integer from its
  start to its end, both included.
\<close>

definition term_denotes :: "string \<Rightarrow> int set" where
  "term_denotes c =
     (if single_term c then {int_value (py_strip c)} else {range_start c .. range_end c})"

definition term_lines :: "string \<Rightarrow> int list" where
  "term_lines c =
     (if single_term c then [int_value (py_strip c)] else [range_start c .. range_end c])"

section \<open>An environment for the examples\<close>

text \<open>
  Attributes are looked up in the element, nothing is wrong with the attribute names, and
  two lexers are known.
\<close>

definition sample_env :: env where
  "sample_env =
     \<lparr>check_attribs = (\<lambda>element required optional. None),
      get_string_attrib =
        (\<lambda>element name default.
           case map_of (el_attrib element) name of Some v \<Rightarrow> Some v | None \<Rightarrow> default),
      get_lexer_by_name = (\<lambda>alias. alias \<in> set [''python'', ''py'', ''c'']),
      get_all_lexers =
        [(''Python'', [''python'', ''py''], [''*.py''], [''text/x-python'']),
         (''C'', [''c''], [''*.c''], [''text/x-chdr''])]\<rparr>"

section \<open>The pass-through lexer\<close>

text \<open>
  Claim C4. For every input string, \<open>NoHighlightingLexer.get_tokens_unprocessed\<close> gives exactly
  one token; its type is \<open>Token.Text\<close> and its text is the whole input. So the texts of the
  tokens, concatenated in order, are the input again.
\<close>

theorem no_highlighting_lexer_single_token:
  "get_tokens_unprocessed text = [(0, Token_Text, text)]
   \<and> length (get_tokens_unprocessed text) = 1
   \<and> concat (map (\<lambda>(i, ty, s). s) (get_tokens_unprocessed text)) = text"
  by (simp add: get_tokens_unprocessed_def)

section \<open>Highlighting lines\<close>

lemma highlight_lines_from_append:
  "highlight_lines_from f i (xs @ ys) =
     highlight_lines_from f i xs @ highlight_lines_from f (i + length xs) ys"
  by (induction xs arbitrary: i) auto

lemma highlight_lines_from_lines:
  "highlight_lines_from f i (map (Pair 1) ls) =
     map (\<lambda>(k, l). (1, if int k + 1 \<in> hl_lines f then highlighted_span (hl_color f) l else l))
       (List.enumerate i ls)"
  by (induction ls arbitrary: i) auto

lemma sublist_highlighted_span: "sublist v (highlighted_span c v)"
  unfolding highlighted_span_def sublist_def
  by (rule exI[of _ "''<span class='' @ [DQ] @ ''pl-code-highlighted-line'' @ [DQ] @
        '' style='' @ [DQ] @ ''background-color: '' @ c @ [DQ] @ ''>''"],
      rule exI[of _ "''</span>''"]) simp

text \<open>
  Claim C1. The base formatter hands \<open>_highlight_lines\<close> one pair \<open>(1, line)\<close> for each
  physical line of the rendered code, in order. On such a token source the output has one
  pair for each line, in the same order: the line at position \<open>k\<close> (counted from 1) is
  wrapped once in the span with the configured background colour when \<open>k\<close> is in
  \<open>hl_lines\<close>, and is passed on unchanged otherwise. For three lines and \<open>hl_lines = {2}\<close>
  the second line is the only one wrapped; for the lines \<open>a\<close>, \<open>b\<close>, \<open>c\<close> and the colour
  \<open>#ff0000\<close> the written output is \<open>a\<close>, then the span around \<open>b\<close>, then \<open>c\<close>.
\<close>

theorem highlight_lines_wraps_highlighted_lines:
  "highlight_lines f (map (Pair 1) ls) =
     map (\<lambda>(k, l). (1, if int k + 1 \<in> hl_lines f then highlighted_span (hl_color f) l else l))
       (List.enumerate 0 ls)
   \<and> highlight_lines (f\<lparr>hl_lines := {2}\<rparr>) [(1, l1), (1, l2), (1, l3)] =
       [(1, l1), (1, highlighted_span (hl_color f) l2), (1, l3)]
   \<and> concat (map snd (highlight_lines \<lparr>hl_lines = {2}, hl_color = ''#ff0000''\<rparr>
       [(1, ''a\<newline>''), (1, ''b\<newline>''), (1, ''c\<newline>'')])) =
     ''a\<newline><span class='' @ [DQ] @ ''pl-code-highlighted-line'' @ [DQ] @ '' style='' @ [DQ] @
     ''background-color: #ff0000'' @ [DQ] @ ''>b\<newline></span>c\<newline>''"
  by (simp add: highlight_lines_def highlight_lines_from_lines highlighted_span_def)

text \<open>
  Claim C9. A pair \<open>(t, value)\<close> of the token source whose tag \<open>t\<close> is not 1 is yielded
  twice: first unchanged, then with tag 1, wrapped in the highlight span when its position
  (counted from 1) is in \<open>hl_lines\<close>. The output therefore has at least two pairs whose text
  contains \<open>value\<close>.
\<close>

theorem highlight_lines_duplicates_untagged:
  assumes "i < length ts" and "ts ! i = (t, v)" and "t \<noteq> 1"
  shows "highlight_lines f ts =
           highlight_lines f (take i ts) @
           [(t, v), (1, if int i + 1 \<in> hl_lines f then highlighted_span (hl_color f) v else v)] @
           highlight_lines_from f (Suc i) (drop (Suc i) ts)
         \<and> 2 \<le> length (filter (\<lambda>p. sublist v (snd p)) (highlight_lines f ts))"
proof -
  define w where "w = (if int i + 1 \<in> hl_lines f then highlighted_span (hl_color f) v else v)"
  define pre where "pre = highlight_lines f (take i ts)"
  define post where "post = highlight_lines_from f (Suc i) (drop (Suc i) ts)"
  have split: "ts = take i ts @ (t, v) # drop (Suc i) ts"
    using assms(1,2) by (metis id_take_nth_drop)
  have len: "length (take i ts) = i" using assms(1) by simp
  have "highlight_lines_from f 0 (take i ts @ (t, v) # drop (Suc i) ts) =
          highlight_lines_from f 0 (take i ts) @
          highlight_lines_from f i ((t, v) # drop (Suc i) ts)"
    using highlight_lines_from_append[of f 0 "take i ts" "(t, v) # drop (Suc i) ts"] len by simp
  moreover have "highlight_lines_from f i ((t, v) # drop (Suc i) ts) = [(t, v), (1, w)] @ post"
    using assms(3) by (simp add: w_def post_def)
  ultimately have eq: "highlight_lines f ts = pre @ [(t, v), (1, w)] @ post"
    using split by (simp add: highlight_lines_def pre_def)
  have sw: "sublist v w" by (simp add: w_def sublist_highlighted_span)
  have "2 \<le> length (filter (\<lambda>p. sublist v (snd p)) (pre @ [(t, v), (1, w)] @ post))"
    using sw by simp
  with eq show ?thesis by (simp add: w_def pre_def post_def)
qed

theorem highlight_lines_duplicates_untagged_witness:
  "0 < length [(0::int, ''x'')] \<and> [(0::int, ''x'')] ! 0 = (0, ''x'') \<and> (0::int) \<noteq> 1 \<and>
   highlight_lines \<lparr>hl_lines = {1}, hl_color = ''#b3d7ff''\<rparr> [(0, ''x'')] =
     [(0, ''x''), (1, highlighted_span ''#b3d7ff'' ''x'')]"
  using highlight_lines_duplicates_untagged
          [of 0 "[(0, ''x'')]" 0 "''x''" "\<lparr>hl_lines = {1}, hl_color = ''#b3d7ff''\<rparr>"]
  by (simp add: highlight_lines_def)

section \<open>Chopping ending newlines\<close>

lemma slice_to_neg_two:
  "slice_to_neg 2 code = [x, y] \<longleftrightarrow> (\<exists>a b. code = [x, y, a, b])"
proof
  assume h: "slice_to_neg 2 code = [x, y]"
  then have "length (take (length code - 2) code) = 2"
    by (simp add: slice_to_neg_def)
  then have "length code = 4" by simp
  then obtain p q a b where c: "code = [p, q, a, b]"
    by (auto simp: eval_nat_numeral length_Suc_conv)
  with h show "\<exists>a b. code = [x, y, a, b]"
    by (simp add: slice_to_neg_def)
next
  assume "\<exists>a b. code = [x, y, a, b]"
  then show "slice_to_neg 2 code = [x, y]"
    by (auto simp: slice_to_neg_def)
qed

lemma slice_to_neg_one:
  "slice_to_neg 1 code = [x] \<longleftrightarrow> (\<exists>c. code = [x, c])"
proof
  assume h: "slice_to_neg 1 code = [x]"
  then have "length (take (length code - 1) code) = 1"
    by (simp add: slice_to_neg_def)
  then have "length code = 2" by simp
  then obtain p c where c: "code = [p, c]"
    by (auto simp: eval_nat_numeral length_Suc_conv)
  with h show "\<exists>c. code = [x, c]"
    by (simp add: slice_to_neg_def)
next
  assume "\<exists>c. code = [x, c]"
  then show "slice_to_neg 1 code = [x]"
    by (auto simp: slice_to_neg_def)
qed

lemma chop_ending_newlines_cases:
  "chop_ending_newlines code =
     (if \<exists>a b. code = [CR, NL, a, b] then [CR, NL]
      else if \<exists>c. code = [NL, c] then [NL] else code)"
proof (cases "\<exists>a b. code = [CR, NL, a, b]")
  case True
  then have s: "slice_to_neg 2 code = [CR, NL]" by (simp add: slice_to_neg_two)
  have "slice_to_neg 1 [CR, NL] \<noteq> [NL]" by (simp add: slice_to_neg_def CR_def NL_def)
  with True s show ?thesis by (simp add: chop_ending_newlines_def)
next
  case False
  then have s: "slice_to_neg 2 code \<noteq> [CR, NL]" by (simp add: slice_to_neg_two)
  show ?thesis
  proof (cases "\<exists>c. code = [NL, c]")
    case True
    then have "slice_to_neg 1 code = [NL]" using slice_to_neg_one[of code NL] by blast
    with s False True show ?thesis by (simp add: chop_ending_newlines_def)
  next
    case F2: False
    then have "slice_to_neg 1 code \<noteq> [NL]" using slice_to_neg_one[of code NL] by blast
    with s False F2 show ?thesis by (simp add: chop_ending_newlines_def)
  qed
qed

text \<open>
  Claim C10. The step that chops ending newlines compares \<open>code[:-2]\<close> with \<open>\r\n\<close> and
  \<open>code[:-1]\<close> with \<open>\n\<close>. It changes the content exactly when the content is \<open>\r\n\<close>
  followed by two characters (the result is \<open>\r\n\<close>) or \<open>\n\<close> followed by one character
  (the result is \<open>\n\<close>); every other content is left as it is. In particular content that
  ends in a newline and is of neither form keeps that newline.
\<close>

theorem chop_ending_newlines_effect:
  "chop_ending_newlines code =
     (if \<exists>a b. code = [CR, NL, a, b] then [CR, NL]
      else if \<exists>c. code = [NL, c] then [NL] else code)
   \<and> (chop_ending_newlines code \<noteq> code \<longleftrightarrow>
        (\<exists>a b. code = [CR, NL, a, b]) \<or> (\<exists>c. code = [NL, c]))
   \<and> (body \<noteq> [NL] \<and> \<not> (length body = 3 \<and> take 2 body = [CR, NL]) \<longrightarrow>
        chop_ending_newlines (body @ [NL]) = body @ [NL])"
proof (intro conjI impI)
  show "chop_ending_newlines code =
     (if \<exists>a b. code = [CR, NL, a, b] then [CR, NL]
      else if \<exists>c. code = [NL, c] then [NL] else code)"
    by (rule chop_ending_newlines_cases)
next
  show "chop_ending_newlines code \<noteq> code \<longleftrightarrow>
        (\<exists>a b. code = [CR, NL, a, b]) \<or> (\<exists>c. code = [NL, c])"
    unfolding chop_ending_newlines_cases[of code] by auto
next
  assume h: "body \<noteq> [NL] \<and> \<not> (length body = 3 \<and> take 2 body = [CR, NL])"
  have "\<not> (\<exists>a b. body @ [NL] = [CR, NL, a, b])"
  proof
    assume "\<exists>a b. body @ [NL] = [CR, NL, a, b]"
    then obtain a b where e: "body @ [NL] = [CR, NL, a, b]" by blast
    then have "body @ [NL] = [CR, NL, a] @ [b]" by simp
    then have "body = [CR, NL, a]" by (simp only: append1_eq_conv)
    with h show False by simp
  qed
  moreover have "\<not> (\<exists>c. body @ [NL] = [NL, c])"
  proof
    assume "\<exists>c. body @ [NL] = [NL, c]"
    then obtain c where "body @ [NL] = [NL] @ [c]" by auto
    then have "body = [NL]" by (simp only: append1_eq_conv)
    with h show False by simp
  qed
  ultimately show "chop_ending_newlines (body @ [NL]) = body @ [NL]"
    unfolding chop_ending_newlines_cases[of "body @ [NL]"] by simp
qed

theorem chop_ending_newlines_effect_witness:
  "''abc'' \<noteq> [NL] \<and> \<not> (length ''abc'' = 3 \<and> take 2 ''abc'' = [CR, NL]) \<and>
   chop_ending_newlines (''abc'' @ [NL]) = ''abc'' @ [NL] \<and>
   chop_ending_newlines [CR, NL, CHR ''a'', NL] = [CR, NL] \<and>
   chop_ending_newlines [NL, NL] = [NL]"
  using chop_ending_newlines_effect[of "[CR, NL, CHR ''a'', NL]" "''abc''"]
    chop_ending_newlines_effect[of "[NL, NL]" "''abc''"]
  by (simp add: CR_def NL_def)

section \<open>Splitting, stripping and reading integers\<close>

lemma py_split_nonempty: "py_split t sep \<noteq> []"
  by (cases t) auto

lemma length_py_split: "length (py_split t sep) = Suc (count_list t sep)"
  by (induction t) (auto simp: py_split_nonempty)

lemma hd_py_split: "hd (py_split t sep) = takeWhile (\<lambda>c. c \<noteq> sep) t"
  by (induction t) auto

lemma py_split_no_sep: "count_list t sep = 0 \<Longrightarrow> py_split t sep = [t]"
  by (induction t) (auto split: if_splits)

lemma second_py_split:
  "count_list t sep = 1 \<Longrightarrow> py_split t sep ! 1 = drop 1 (dropWhile (\<lambda>c. c \<noteq> sep) t)"
proof (induction t)
  case Nil
  then show ?case by simp
next
  case (Cons c cs)
  show ?case
  proof (cases "c = sep")
    case True
    with Cons.prems have "count_list cs sep = 0" by simp
    then have "py_split cs sep = [cs]" by (rule py_split_no_sep)
    with True show ?thesis by simp
  next
    case False
    with Cons.prems have c1: "count_list cs sep = 1" by simp
    then have "length (py_split cs sep) = 2" by (simp add: length_py_split)
    then have "tl (py_split cs sep) ! 0 = py_split cs sep ! 1"
      by (cases "py_split cs sep") auto
    with False Cons.IH[OF c1] show ?thesis by simp
  qed
qed

text \<open>
  The loop accepts a list of components exactly when each of them is a well-formed term,
  and then adds their lines in order.
\<close>

lemma parse_components_terms:
  "parse_components cs acc =
     (if list_all wf_term cs then Some (acc @ concat (map term_lines cs)) else None)"
proof (induction cs arbitrary: acc)
  case Nil
  then show ?case by simp
next
  case (Cons c cs)
  show ?case
  proof (cases "py_int (py_strip c)")
    case (Some n)
    then have "single_term c" by (simp add: single_term_def is_integer_def)
    moreover from Some have "term_lines c = [n]"
      by (simp add: term_lines_def single_term_def is_integer_def int_value_def)
    ultimately show ?thesis using Some Cons.IH[of "acc @ [n]"]
      by (simp add: wf_term_def)
  next
    case None
    then have ns: "\<not> single_term c" by (simp add: single_term_def is_integer_def)
    show ?thesis
    proof (cases "count_list (py_strip c) (CHR ''-'') = 1")
      case False
      then have "length (py_split (py_strip c) (CHR ''-'')) \<noteq> 2"
        by (simp add: length_py_split)
      moreover from False have "\<not> range_term c" by (simp add: range_term_def)
      ultimately show ?thesis using None ns by (simp add: wf_term_def)
    next
      case True
      then have len: "length (py_split (py_strip c) (CHR ''-'')) = 2"
        by (simp add: length_py_split)
      have n0: "py_split (py_strip c) (CHR ''-'') ! 0 = before_hyphen (py_strip c)"
        using hd_py_split[of "py_strip c" "CHR ''-''"] py_split_nonempty[of "py_strip c" "CHR ''-''"]
        by (simp add: before_hyphen_def hd_conv_nth)
      have n1: "py_split (py_strip c) (CHR ''-'') ! 1 = after_hyphen (py_strip c)"
        using second_py_split[OF True] by (simp add: after_hyphen_def)
      show ?thesis
      proof (cases "py_int (before_hyphen (py_strip c))")
        case N1: None
        then have "\<not> range_term c" by (simp add: range_term_def is_integer_def)
        with None ns len n0 N1 show ?thesis by (simp add: wf_term_def)
      next
        case S1: (Some a)
        show ?thesis
        proof (cases "py_int (after_hyphen (py_strip c))")
          case N2: None
          then have "\<not> range_term c" by (simp add: range_term_def is_integer_def)
          with None ns len n0 n1 S1 N2 show ?thesis by (simp add: wf_term_def)
        next
          case S2: (Some b)
          with S1 True have rt: "range_term c" by (simp add: range_term_def is_integer_def)
          from S1 S2 ns have tl: "term_lines c = [a..b]"
            by (simp add: term_lines_def range_start_def range_end_def int_value_def)
          from None ns len n0 n1 S1 S2 rt tl Cons.IH[of "acc @ [a..b]"] show ?thesis
            by (simp add: wf_term_def)
        qed
      qed
    qed
  qed
qed

lemma is_digit_not_special:
  "is_digit c \<Longrightarrow> c \<noteq> CHR ''_'' \<and> c \<noteq> CHR ''-'' \<and> c \<noteq> CHR ''+'' \<and> c \<noteq> CHR '',''
     \<and> \<not> isspace_char c \<and> \<not> int_space_char c"
  by (auto simp: is_digit_def isspace_char_def int_space_char_def)

lemma int_space_is_space: "int_space_char c \<Longrightarrow> isspace_char c"
  by (auto simp: isspace_char_def int_space_char_def)

lemma int_body_digits: "ds \<noteq> [] \<Longrightarrow> list_all is_digit ds \<Longrightarrow> int_body ds"
  by (induction ds rule: int_body.induct) (auto simp: is_digit_not_special)

lemma filter_digits: "list_all is_digit ds \<Longrightarrow> filter (\<lambda>c. c \<noteq> CHR ''_'') ds = ds"
  by (induction ds) (auto simp: is_digit_not_special)

lemma py_digits_digits:
  "ds \<noteq> [] \<Longrightarrow> list_all is_digit ds \<Longrightarrow> py_digits ds = Some (decimal ds)"
  by (simp add: py_digits_def int_body_digits filter_digits)

lemma int_body_chars: "int_body b \<Longrightarrow> x \<in> set b \<Longrightarrow> is_digit x \<or> x = CHR ''_''"
  by (induction b rule: int_body.induct) (auto split: if_splits)

lemma strip_both:
  assumes "list_all P w1" and "list_all P w2" and "t \<noteq> []"
    and "\<not> P (hd t)" and "\<not> P (last t)"
  shows "rev (dropWhile P (rev (dropWhile P (w1 @ t @ w2)))) = t"
proof -
  from assms(3) obtain x r where t: "t = x # r" by (cases t) auto
  from assms(3) obtain r' y where t': "t = r' @ [y]" by (cases t rule: rev_cases) auto
  have "dropWhile P (w1 @ t @ w2) = t @ w2"
    using assms(1,4) t by (simp add: dropWhile_append3 list_all_iff)
  moreover have "dropWhile P (rev (t @ w2)) = rev t"
    using assms(2,5) t' by (simp add: dropWhile_append3 list_all_iff)
  ultimately show ?thesis by simp
qed

lemma strip_none:
  assumes "t = [] \<or> (\<not> P (hd t) \<and> \<not> P (last t))"
  shows "rev (dropWhile P (rev (dropWhile P t))) = t"
proof (cases "t = []")
  case True
  then show ?thesis by simp
next
  case False
  with assms strip_both[of P "[]" "[]" t] show ?thesis by simp
qed

lemma strip_ends:
  assumes "t = rev (dropWhile P (rev (dropWhile P s)))"
  shows "t = [] \<or> (\<not> P (hd t) \<and> \<not> P (last t))"
proof (cases "t = []")
  case True
  then show ?thesis by simp
next
  case False
  define u where "u = dropWhile P s"
  define v where "v = dropWhile P (rev u)"
  have t: "t = rev v" using assms by (simp add: u_def v_def)
  with False have v: "v \<noteq> []" by simp
  then have hv: "\<not> P (hd v)" unfolding v_def by (rule hd_dropWhile)
  from v have u: "u \<noteq> []" by (auto simp: v_def)
  then have hu: "\<not> P (hd u)" unfolding u_def by (rule hd_dropWhile)
  have "rev u = takeWhile P (rev u) @ v" by (simp add: v_def)
  then have "last (rev u) = last v" using v by (metis last_appendR)
  then have "last v = hd u" using u by (simp add: last_rev)
  with hu hv t v show ?thesis by (simp add: hd_rev last_rev)
qed

lemma py_strip_ends:
  "py_strip c = [] \<or> (\<not> isspace_char (hd (py_strip c)) \<and> \<not> isspace_char (last (py_strip c)))"
  using strip_ends[of "py_strip c" isspace_char c] by (simp add: py_strip_def)

lemma py_int_stripped:
  assumes "t = [] \<or> (\<not> isspace_char (hd t) \<and> \<not> isspace_char (last t))"
  shows "py_int t =
     (case t of [] \<Rightarrow> None
      | c # r \<Rightarrow> if c = CHR ''-'' then map_option uminus (py_digits r)
                 else if c = CHR ''+'' then py_digits r else py_digits (c # r))"
proof -
  from assms have "t = [] \<or> (\<not> int_space_char (hd t) \<and> \<not> int_space_char (last t))"
    using int_space_is_space by blast
  then have "rev (dropWhile int_space_char (rev (dropWhile int_space_char t))) = t"
    by (rule strip_none)
  then show ?thesis by (simp add: py_int_def)
qed

lemma py_digits_no_hyphen: "py_digits b = Some n \<Longrightarrow> CHR ''-'' \<notin> set b"
  using int_body_chars[of b "CHR ''-''"]
  by (auto simp: py_digits_def is_digit_def split: if_splits)

lemma single_not_range: "single_term c \<Longrightarrow> \<not> range_term c"
proof
  assume s: "single_term c" and r: "range_term c"
  define t where "t = py_strip c"
  from s obtain n where n: "py_int t = Some n"
    by (auto simp: single_term_def is_integer_def t_def)
  have ends: "t = [] \<or> (\<not> isspace_char (hd t) \<and> \<not> isspace_char (last t))"
    unfolding t_def by (rule py_strip_ends)
  note pi = py_int_stripped[OF ends]
  from n pi obtain c0 r0 where t: "t = c0 # r0" by (cases t) auto
  from r have cnt: "count_list t (CHR ''-'') = 1"
    and bi: "py_int (before_hyphen t) \<noteq> None"
    by (auto simp: range_term_def is_integer_def t_def)
  show False
  proof (cases "c0 = CHR ''-''")
    case True
    with t have "before_hyphen t = []" by (simp add: before_hyphen_def)
    with bi show False by (simp add: py_int_def)
  next
    case False
    show False
    proof (cases "c0 = CHR ''+''")
      case True
      with n pi t have "py_digits r0 = Some n" by simp
      then have "CHR ''-'' \<notin> set r0" by (rule py_digits_no_hyphen)
      with t False cnt show False by simp
    next
      case F2: False
      with n pi t False have "py_digits (c0 # r0) = Some n" by simp
      then have "CHR ''-'' \<notin> set (c0 # r0)" by (rule py_digits_no_hyphen)
      then have "count_list (c0 # r0) (CHR ''-'') = 0" by (rule count_notin)
      with t cnt show False by simp
    qed
  qed
qed

lemma digits_ends:
  assumes "ds \<noteq> []" and "list_all is_digit ds"
  shows "is_digit (hd ds)" and "is_digit (last ds)"
  using assms by (auto simp: list_all_iff)

lemma py_int_padded:
  assumes "ds \<noteq> []" and "list_all is_digit ds"
    and "list_all int_space_char u" and "list_all int_space_char v"
  shows "py_int (u @ ds @ v) = Some (decimal ds)"
proof -
  have e: "\<not> int_space_char (hd ds)" "\<not> int_space_char (last ds)"
    using digits_ends[OF assms(1,2)] is_digit_not_special by blast+
  have s: "rev (dropWhile int_space_char (rev (dropWhile int_space_char (u @ ds @ v)))) = ds"
    using strip_both[OF assms(3,4,1) e] .
  from assms(1) obtain c r where ds: "ds = c # r" by (cases ds) auto
  with digits_ends(1)[OF assms(1,2)] have "c \<noteq> CHR ''-''" "c \<noteq> CHR ''+''"
    using is_digit_not_special by auto
  with s ds py_digits_digits[OF assms(1,2)] show ?thesis
    by (simp add: py_int_def)
qed

lemma py_int_digits:
  "ds \<noteq> [] \<Longrightarrow> list_all is_digit ds \<Longrightarrow> py_int ds = Some (decimal ds)"
  using py_int_padded[of ds "[]" "[]"] by simp

lemma single_term_digits:
  assumes "ds \<noteq> []" and "list_all is_digit ds"
    and "list_all isspace_char w1" and "list_all isspace_char w2"
  shows "single_term (w1 @ ds @ w2) \<and> term_denotes (w1 @ ds @ w2) = {decimal ds}"
proof -
  have e: "\<not> isspace_char (hd ds)" "\<not> isspace_char (last ds)"
    using digits_ends[OF assms(1,2)] is_digit_not_special by blast+
  have "py_strip (w1 @ ds @ w2) = ds"
    unfolding py_strip_def using strip_both[OF assms(3,4,1) e] .
  with py_int_digits[OF assms(1,2)] show ?thesis
    by (simp add: single_term_def term_denotes_def is_integer_def int_value_def)
qed

lemma hyphen_not_digit: "\<not> is_digit (CHR ''-'')"
  by (simp add: is_digit_def)

lemma hyphen_not_int_space: "\<not> int_space_char (CHR ''-'')"
  by (simp add: int_space_char_def)

lemma no_hyphen_digits: "list_all is_digit ds \<Longrightarrow> CHR ''-'' \<notin> set ds"
  using hyphen_not_digit unfolding list_all_iff by blast

lemma no_hyphen_space: "list_all int_space_char w \<Longrightarrow> CHR ''-'' \<notin> set w"
  using hyphen_not_int_space unfolding list_all_iff by blast

lemma count_list_one_sep:
  "x \<notin> set xs \<Longrightarrow> x \<notin> set ys \<Longrightarrow> count_list (xs @ x # ys) x = 1"
  by (induction xs) auto

lemma takeWhile_one_sep:
  "x \<notin> set xs \<Longrightarrow> takeWhile (\<lambda>c. c \<noteq> x) (xs @ x # ys) = xs"
  by (induction xs) auto

lemma dropWhile_one_sep:
  "x \<notin> set xs \<Longrightarrow> dropWhile (\<lambda>c. c \<noteq> x) (xs @ x # ys) = x # ys"
  by (induction xs) auto

lemma range_term_digits:
  assumes "a \<noteq> []" and "list_all is_digit a" and "b \<noteq> []" and "list_all is_digit b"
    and "list_all isspace_char w1" and "list_all int_space_char w2"
    and "list_all int_space_char w3" and "list_all isspace_char w4"
  shows "range_term (w1 @ a @ w2 @ ''-'' @ w3 @ b @ w4) \<and>
         term_denotes (w1 @ a @ w2 @ ''-'' @ w3 @ b @ w4) = {decimal a .. decimal b}"
proof -
  define p where "p = a @ w2"
  define q where "q = w3 @ b"
  define t where "t = p @ CHR ''-'' # q"
  have tne: "t \<noteq> []" by (simp add: t_def)
  have "hd t = hd a" using assms(1) by (simp add: t_def p_def)
  then have e1: "\<not> isspace_char (hd t)"
    using digits_ends(1)[OF assms(1,2)] is_digit_not_special[of "hd a"] by simp
  have "last t = last b" using assms(3) by (simp add: t_def q_def)
  then have e2: "\<not> isspace_char (last t)"
    using digits_ends(2)[OF assms(3,4)] is_digit_not_special[of "last b"] by simp
  have ps: "py_strip (w1 @ t @ w4) = t"
    unfolding py_strip_def using strip_both[OF assms(5) assms(8) tne e1 e2] .
  have full: "w1 @ a @ w2 @ ''-'' @ w3 @ b @ w4 = w1 @ t @ w4"
    by (simp add: t_def p_def q_def)
  have st: "py_strip (w1 @ a @ w2 @ ''-'' @ w3 @ b @ w4) = t"
    unfolding full by (rule ps)
  have nhp: "CHR ''-'' \<notin> set p"
    using no_hyphen_digits[OF assms(2)] no_hyphen_space[OF assms(6)] by (simp add: p_def)
  have nhq: "CHR ''-'' \<notin> set q"
    using no_hyphen_digits[OF assms(4)] no_hyphen_space[OF assms(7)] by (simp add: q_def)
  have cnt: "count_list t (CHR ''-'') = 1"
    unfolding t_def using nhp nhq by (rule count_list_one_sep)
  have bh: "before_hyphen t = p"
    unfolding t_def before_hyphen_def using nhp by (rule takeWhile_one_sep)
  have "dropWhile (\<lambda>c. c \<noteq> CHR ''-'') t = CHR ''-'' # q"
    unfolding t_def using nhp by (rule dropWhile_one_sep)
  then have ah: "after_hyphen t = q" by (simp add: after_hyphen_def)
  have pa: "py_int p = Some (decimal a)"
    using py_int_padded[OF assms(1,2), of "[]" w2] assms(6) by (simp add: p_def)
  have pb: "py_int q = Some (decimal b)"
    using py_int_padded[OF assms(3,4), of w3 "[]"] assms(7) by (simp add: q_def)
  have rt: "range_term (w1 @ a @ w2 @ ''-'' @ w3 @ b @ w4)"
    unfolding range_term_def st using cnt bh ah pa pb by (simp add: is_integer_def)
  then have ns: "\<not> single_term (w1 @ a @ w2 @ ''-'' @ w3 @ b @ w4)"
    using single_not_range by blast
  have "term_denotes (w1 @ a @ w2 @ ''-'' @ w3 @ b @ w4) = {decimal a .. decimal b}"
    unfolding term_denotes_def range_start_def range_end_def st
    using ns bh ah pa pb by (simp add: int_value_def)
  with rt show ?thesis by simp
qed

section \<open>The checks of \<open>prepare\<close>\<close>

lemma source_file_block_iff:
  "source_file_block sfn txt = Some e \<longleftrightarrow>
     (e = Exception (''Existing code cannot be added inside html element when '' @
                            [DQ] @ ''source-file-name'' @ [DQ] @ '' attribute is used.'') \<and>
      sfn \<noteq> None \<and> (\<exists>t. txt = Some t \<and> \<not> py_isspace t))"
  by (auto simp: source_file_block_def split: option.splits)

lemma highlight_lines_block_msg:
  "highlight_lines_block h = Some e \<Longrightarrow>
     e = Exception ''Could not parse highlight-lines attribute; check your syntax''"
  by (auto simp: highlight_lines_block_def split: option.splits if_splits)

lemma prepare_source_file_block_raises:
  assumes "check_attribs env element [] optional_attribs = None"
    and "language_block env (get_string_attrib env element ''language'' LANGUAGE_DEFAULT) = None"
  shows "(prepare env element =
            Inl (Exception (''Existing code cannot be added inside html element when '' @
                            [DQ] @ ''source-file-name'' @ [DQ] @ '' attribute is used.'')))
         \<longleftrightarrow>
         (get_string_attrib env element ''source-file-name'' SOURCE_FILE_NAME_DEFAULT \<noteq> None \<and>
          (\<exists>t. el_text element = Some t \<and> \<not> py_isspace t))"
proof -
  define m where "m = Exception (''Existing code cannot be added inside html element when '' @
                            [DQ] @ ''source-file-name'' @ [DQ] @ '' attribute is used.'')"
  define sb where "sb = source_file_block
             (get_string_attrib env element ''source-file-name'' SOURCE_FILE_NAME_DEFAULT)
             (el_text element)"
  define hb where "hb = highlight_lines_block
             (get_string_attrib env element ''highlight-lines'' HIGHLIGHT_LINES_DEFAULT)"
  have p: "prepare env element =
      (case sb of Some e \<Rightarrow> Inl e | None \<Rightarrow> (case hb of Some e \<Rightarrow> Inl e | None \<Rightarrow> Inr ()))"
    unfolding prepare_def sb_def hb_def assms by simp
  have ne: "Exception ''Could not parse highlight-lines attribute; check your syntax'' \<noteq> m"
    by (simp add: m_def)
  have sbi: "\<And>e. sb = Some e \<longleftrightarrow> (e = m \<and>
      get_string_attrib env element ''source-file-name'' SOURCE_FILE_NAME_DEFAULT \<noteq> None \<and>
          (\<exists>t. el_text element = Some t \<and> \<not> py_isspace t))"
    unfolding sb_def m_def by (rule source_file_block_iff)
  show ?thesis
  proof (cases sb)
    case None
    with sbi[of m] have "\<not> (get_string_attrib env element ''source-file-name'' SOURCE_FILE_NAME_DEFAULT \<noteq> None \<and>
          (\<exists>t. el_text element = Some t \<and> \<not> py_isspace t))" by simp
    moreover have "prepare env element \<noteq> Inl m"
    proof (cases hb)
      case N: None
      with None p show ?thesis by simp
    next
      case (Some e)
      with highlight_lines_block_msg[of _ e] ne None p show ?thesis
        by (auto simp: hb_def)
    qed
    ultimately show ?thesis unfolding m_def by blast
  next
    case (Some e)
    with sbi[of e] p show ?thesis unfolding m_def by simp
  qed
qed

section \<open>Properties of \<open>parse_highlight_lines\<close> and \<open>prepare\<close>\<close>

lemma set_term_lines: "set (term_lines c) = term_denotes c"
  by (simp add: term_lines_def term_denotes_def)

lemma parse_highlight_lines_terms:
  "parse_highlight_lines spec =
     (if list_all wf_term (spec_terms spec)
      then Some (concat (map term_lines (spec_terms spec))) else None)"
  by (simp add: parse_highlight_lines_def spec_terms_def parse_components_terms)

text \<open>
  Claim C2. \<open>parse_highlight_lines\<close> maps \<open>5\<close> to \<open>[5]\<close>, \<open>1-3\<close> to \<open>[1, 2, 3]\<close> and
  \<open>1-3,5,7-8\<close> to \<open>[1, 2, 3, 5, 7, 8]\<close>. In general, when every term of a specification is a
  bare integer or two integers joined by one hyphen, the specification is accepted and the
  set of the lines returned is the union, over the terms, of what each term denotes. A
  string of decimal digits with whitespace around it is such a term and denotes the number
  it writes; two such strings joined by a hyphen, with whitespace around the term and
  around each number, denote the inclusive range between the two numbers.
\<close>

theorem parse_highlight_lines_well_formed:
  "parse_highlight_lines ''5'' = Some [5]
   \<and> parse_highlight_lines ''1-3'' = Some [1, 2, 3]
   \<and> parse_highlight_lines ''1-3,5,7-8'' = Some [1, 2, 3, 5, 7, 8]
   \<and> (list_all wf_term (spec_terms spec) \<longrightarrow>
        (\<exists>lines. parse_highlight_lines spec = Some lines \<and>
                 set lines = (\<Union>c\<in>set (spec_terms spec). term_denotes c)))
   \<and> (ds \<noteq> [] \<and> list_all is_digit ds \<and> list_all isspace_char w1 \<and> list_all isspace_char w2 \<longrightarrow>
        wf_term (w1 @ ds @ w2) \<and> term_denotes (w1 @ ds @ w2) = {decimal ds})
   \<and> (a \<noteq> [] \<and> list_all is_digit a \<and> b \<noteq> [] \<and> list_all is_digit b \<and>
       list_all isspace_char v1 \<and> list_all int_space_char v2 \<and>
       list_all int_space_char v3 \<and> list_all isspace_char v4 \<longrightarrow>
        wf_term (v1 @ a @ v2 @ ''-'' @ v3 @ b @ v4) \<and>
        term_denotes (v1 @ a @ v2 @ ''-'' @ v3 @ b @ v4) = {decimal a .. decimal b})"
proof (intro conjI impI)
  show "parse_highlight_lines ''5'' = Some [5]" by code_simp
  show "parse_highlight_lines ''1-3'' = Some [1, 2, 3]" by code_simp
  show "parse_highlight_lines ''1-3,5,7-8'' = Some [1, 2, 3, 5, 7, 8]" by code_simp
next
  assume wf: "list_all wf_term (spec_terms spec)"
  then have "parse_highlight_lines spec = Some (concat (map term_lines (spec_terms spec)))"
    by (simp add: parse_highlight_lines_terms)
  moreover have "set (concat (map term_lines (spec_terms spec))) =
      (\<Union>c\<in>set (spec_terms spec). term_denotes c)"
    by (simp add: set_term_lines)
  ultimately show "\<exists>lines. parse_highlight_lines spec = Some lines \<and>
                 set lines = (\<Union>c\<in>set (spec_terms spec). term_denotes c)"
    by blast
next
  assume h: "ds \<noteq> [] \<and> list_all is_digit ds \<and> list_all isspace_char w1 \<and> list_all isspace_char w2"
  then have s: "single_term (w1 @ ds @ w2) \<and> term_denotes (w1 @ ds @ w2) = {decimal ds}"
    using single_term_digits[of ds w1 w2] by blast
  from s show "wf_term (w1 @ ds @ w2)" by (simp add: wf_term_def)
  from s show "term_denotes (w1 @ ds @ w2) = {decimal ds}" by simp
next
  assume h: "a \<noteq> [] \<and> list_all is_digit a \<and> b \<noteq> [] \<and> list_all is_digit b \<and>
       list_all isspace_char v1 \<and> list_all int_space_char v2 \<and>
       list_all int_space_char v3 \<and> list_all isspace_char v4"
  then have r: "range_term (v1 @ a @ v2 @ ''-'' @ v3 @ b @ v4) \<and>
        term_denotes (v1 @ a @ v2 @ ''-'' @ v3 @ b @ v4) = {decimal a .. decimal b}"
    using range_term_digits[of a b v1 v2 v3 v4] by blast
  from r show "wf_term (v1 @ a @ v2 @ ''-'' @ v3 @ b @ v4)" by (simp add: wf_term_def)
  from r show "term_denotes (v1 @ a @ v2 @ ''-'' @ v3 @ b @ v4) = {decimal a .. decimal b}"
    by simp
qed

theorem parse_highlight_lines_well_formed_witness:
  "list_all wf_term (spec_terms ''2, 4 - 5'')
   \<and> (\<exists>lines. parse_highlight_lines ''2, 4 - 5'' = Some lines \<and> set lines = {2, 4, 5})
   \<and> wf_term '' 12 '' \<and> term_denotes '' 12 '' = {12}
   \<and> wf_term '' 1 - 3 '' \<and> term_denotes '' 1 - 3 '' = {1, 2, 3}"
proof -
  have h1: "list_all wf_term (spec_terms ''2, 4 - 5'')" by code_simp
  have h2: "''12'' \<noteq> [] \<and> list_all is_digit ''12'' \<and> list_all isspace_char '' '' \<and>
            list_all isspace_char '' ''" by code_simp
  have h3: "''1'' \<noteq> [] \<and> list_all is_digit ''1'' \<and> ''3'' \<noteq> [] \<and> list_all is_digit ''3'' \<and>
       list_all isspace_char '' '' \<and> list_all int_space_char '' '' \<and>
       list_all int_space_char '' '' \<and> list_all isspace_char '' ''" by code_simp
  have u: "(\<Union>c\<in>set (spec_terms ''2, 4 - 5''). term_denotes c) = {2, 4, 5}" by code_simp
  have d1: "decimal ''12'' = 12" by code_simp
  have d2: "{decimal ''1'' .. decimal ''3''} = {1, 2, 3}" by code_simp
  note t = parse_highlight_lines_well_formed[where spec = "''2, 4 - 5''" and ds = "''12''"
      and ?w1.0 = "'' ''" and ?w2.0 = "'' ''" and a = "''1''" and b = "''3''"
      and ?v1.0 = "'' ''" and ?v2.0 = "'' ''" and ?v3.0 = "'' ''" and ?v4.0 = "'' ''"]
  from t h1 u have c1: "\<exists>lines. parse_highlight_lines ''2, 4 - 5'' = Some lines \<and> set lines = {2, 4, 5}"
    by simp
  from t h2 d1 have c2: "wf_term '' 12 '' \<and> term_denotes '' 12 '' = {12}" by simp
  from t h3 d2 have c3: "wf_term '' 1 - 3 '' \<and> term_denotes '' 1 - 3 '' = {1, 2, 3}" by simp
  from h1 c1 c2 c3 show ?thesis by blast
qed

lemma prepare_highlight_lines_raises:
  assumes "get_string_attrib env element ''highlight-lines'' HIGHLIGHT_LINES_DEFAULT = Some spec"
    and "parse_highlight_lines spec = None"
  shows "\<exists>e. prepare env element = Inl e"
    and "check_attribs env element [] optional_attribs = None \<and>
         language_block env (get_string_attrib env element ''language'' LANGUAGE_DEFAULT) = None \<and>
         source_file_block
           (get_string_attrib env element ''source-file-name'' SOURCE_FILE_NAME_DEFAULT)
           (el_text element) = None \<Longrightarrow>
         prepare env element =
           Inl (Exception ''Could not parse highlight-lines attribute; check your syntax'')"
proof -
  have hb: "highlight_lines_block
      (get_string_attrib env element ''highlight-lines'' HIGHLIGHT_LINES_DEFAULT) =
      Some (Exception ''Could not parse highlight-lines attribute; check your syntax'')"
    using assms by (simp add: highlight_lines_block_def)
  show "\<exists>e. prepare env element = Inl e"
    unfolding prepare_def hb by (simp split: option.split)
  show "check_attribs env element [] optional_attribs = None \<and>
         language_block env (get_string_attrib env element ''language'' LANGUAGE_DEFAULT) = None \<and>
         source_file_block
           (get_string_attrib env element ''source-file-name'' SOURCE_FILE_NAME_DEFAULT)
           (el_text element) = None \<Longrightarrow>
         prepare env element =
           Inl (Exception ''Could not parse highlight-lines attribute; check your syntax'')"
    unfolding prepare_def hb by simp
qed

text \<open>
  Claim C3. A specification is rejected exactly when one of its terms is neither a bare
  integer nor two integers joined by one hyphen; the empty specification is rejected. The
  result is then \<open>None\<close> and no list is returned. When the \<open>highlight-lines\<close> attribute holds
  such a specification, \<open>prepare\<close> raises an exception; when the statements before the
  check of \<open>highlight-lines\<close> raise nothing, it is the exception
  \<open>Could not parse highlight-lines attribute; check your syntax\<close>.
\<close>

theorem parse_highlight_lines_rejects_malformed:
  "parse_highlight_lines '''' = None
   \<and> (parse_highlight_lines spec = None \<longleftrightarrow> \<not> list_all wf_term (spec_terms spec))
   \<and> (c \<in> set (spec_terms spec) \<and> \<not> wf_term c \<longrightarrow>
        parse_highlight_lines spec = None \<and>
        (get_string_attrib env element ''highlight-lines'' HIGHLIGHT_LINES_DEFAULT = Some spec \<longrightarrow>
           (\<exists>e. prepare env element = Inl e) \<and>
           (check_attribs env element [] optional_attribs = None \<and>
            language_block env (get_string_attrib env element ''language'' LANGUAGE_DEFAULT) = None \<and>
            source_file_block
              (get_string_attrib env element ''source-file-name'' SOURCE_FILE_NAME_DEFAULT)
              (el_text element) = None \<longrightarrow>
            prepare env element =
              Inl (Exception ''Could not parse highlight-lines attribute; check your syntax''))))"
proof (intro conjI impI)
  show "parse_highlight_lines '''' = None" by code_simp
  show "parse_highlight_lines spec = None \<longleftrightarrow> \<not> list_all wf_term (spec_terms spec)"
    by (simp add: parse_highlight_lines_terms)
next
  assume h: "c \<in> set (spec_terms spec) \<and> \<not> wf_term c"
  then have "\<not> list_all wf_term (spec_terms spec)" by (auto simp: list_all_iff)
  then show n: "parse_highlight_lines spec = None" by (simp add: parse_highlight_lines_terms)
  assume g: "get_string_attrib env element ''highlight-lines'' HIGHLIGHT_LINES_DEFAULT = Some spec"
  show "\<exists>e. prepare env element = Inl e"
    using prepare_highlight_lines_raises(1)[OF g n] .
  assume "check_attribs env element [] optional_attribs = None \<and>
            language_block env (get_string_attrib env element ''language'' LANGUAGE_DEFAULT) = None \<and>
            source_file_block
              (get_string_attrib env element ''source-file-name'' SOURCE_FILE_NAME_DEFAULT)
              (el_text element) = None"
  then show "prepare env element =
              Inl (Exception ''Could not parse highlight-lines attribute; check your syntax'')"
    using prepare_highlight_lines_raises(2)[OF g n] by blast
qed

theorem parse_highlight_lines_rejects_malformed_witness:
  "''x'' \<in> set (spec_terms ''1-3,x'') \<and> \<not> wf_term ''x''
   \<and> parse_highlight_lines ''1-3,x'' = None
   \<and> get_string_attrib sample_env \<lparr>el_attrib = [(''highlight-lines'', ''1-3,x'')], el_text = None\<rparr>
        ''highlight-lines'' HIGHLIGHT_LINES_DEFAULT = Some ''1-3,x''
   \<and> prepare sample_env \<lparr>el_attrib = [(''highlight-lines'', ''1-3,x'')], el_text = None\<rparr> =
        Inl (Exception ''Could not parse highlight-lines attribute; check your syntax'')"
proof -
  define el where "el = \<lparr>el_attrib = [(''highlight-lines'', ''1-3,x'')], el_text = None\<rparr>"
  have h1: "''x'' \<in> set (spec_terms ''1-3,x'') \<and> \<not> wf_term ''x''" by code_simp
  have h2: "get_string_attrib sample_env el ''highlight-lines'' HIGHLIGHT_LINES_DEFAULT
              = Some ''1-3,x''"
    by (simp add: sample_env_def el_def)
  have h3: "check_attribs sample_env el [] optional_attribs = None \<and>
            language_block sample_env
              (get_string_attrib sample_env el ''language'' LANGUAGE_DEFAULT) = None \<and>
            source_file_block
              (get_string_attrib sample_env el ''source-file-name'' SOURCE_FILE_NAME_DEFAULT)
              (el_text el) = None"
    by (simp add: sample_env_def el_def language_block_def source_file_block_def
          LANGUAGE_DEFAULT_def SOURCE_FILE_NAME_DEFAULT_def)
  note t = parse_highlight_lines_rejects_malformed[where c = "''x''" and spec = "''1-3,x''"
      and env = sample_env and element = el]
  from t h1 have c1: "parse_highlight_lines ''1-3,x'' = None" by blast
  from t h1 h2 h3 have c2: "prepare sample_env el =
        Inl (Exception ''Could not parse highlight-lines attribute; check your syntax'')"
    by blast
  from h1 c1 h2 c2 show ?thesis unfolding el_def by blast
qed

text \<open>
  Claim C5. A range term whose end is smaller than its start denotes no line: the loop
  goes on with the lines it had, and the result for the whole specification is the result
  for the other terms, before and after it, processed as usual.
\<close>

theorem backwards_range_contributes_nothing:
  assumes "range_term c" and "range_end c < range_start c"
  shows "term_denotes c = {}
     \<and> parse_components (c # rest) lines = parse_components rest lines
     \<and> (spec_terms spec = before @ c # after \<longrightarrow>
          parse_highlight_lines spec = parse_components (before @ after) [])"
proof -
  have ns: "\<not> single_term c" using assms(1) single_not_range by blast
  have wf: "wf_term c" using assms(1) by (simp add: wf_term_def)
  have tl: "term_lines c = []" using ns assms(2) by (simp add: term_lines_def)
  have td: "term_denotes c = {}" using ns assms(2) by (simp add: term_denotes_def)
  have one: "parse_components (c # rest) lines = parse_components rest lines"
    by (simp add: parse_components_terms wf tl)
  have "spec_terms spec = before @ c # after \<longrightarrow>
          parse_highlight_lines spec = parse_components (before @ after) []"
    by (simp add: parse_highlight_lines_def spec_terms_def parse_components_terms wf tl)
  with td one show ?thesis by blast
qed

theorem backwards_range_contributes_nothing_witness:
  "range_term ''5-3'' \<and> range_end ''5-3'' < range_start ''5-3''
   \<and> term_denotes ''5-3'' = {}
   \<and> parse_components [''5-3'', ''7''] [1] = Some [1, 7]
   \<and> spec_terms ''1,5-3,7'' = [''1''] @ ''5-3'' # [''7'']
   \<and> parse_highlight_lines ''1,5-3,7'' = Some [1, 7]"
proof -
  have h: "range_term ''5-3''" "range_end ''5-3'' < range_start ''5-3''" by code_simp+
  have s: "spec_terms ''1,5-3,7'' = [''1''] @ ''5-3'' # [''7'']" by code_simp
  have p1: "parse_components [''7''] [1] = Some [1, 7]" by code_simp
  have p2: "parse_components ([''1''] @ [''7'']) [] = Some [1, 7]" by code_simp
  note t = backwards_range_contributes_nothing[OF h, where rest = "[''7'']" and lines = "[1]"
      and spec = "''1,5-3,7''" and before = "[''1'']" and after = "[''7'']"]
  from t h s p1 p2 show ?thesis by simp
qed

text \<open>
  Claim C6, as stated, fails: the specification \<open>0\<close> is accepted with the line 0, and the
  specification \<open>-5\<close> is accepted with the line \<open>-5\<close>.
\<close>

theorem parse_highlight_lines_accepts_nonpositive:
  "parse_highlight_lines ''0'' = Some [0] \<and> \<not> (0::int) < 0
   \<and> parse_highlight_lines ''-5'' = Some [- 5] \<and> \<not> (0::int) < - 5"
  by (intro conjI; code_simp)

text \<open>
  Claim C6, amended. When a specification is accepted, and every bare integer and the start
  of every range among its terms is positive, every line returned is positive.
\<close>

theorem parse_highlight_lines_positive:
  assumes "parse_highlight_lines spec = Some lines"
    and "\<forall>c\<in>set (spec_terms spec).
           (single_term c \<longrightarrow> 0 < int_value (py_strip c)) \<and>
           (range_term c \<longrightarrow> 0 < range_start c)"
  shows "\<forall>x\<in>set lines. 0 < x"
proof
  fix x assume x: "x \<in> set lines"
  from assms(1) have wf: "list_all wf_term (spec_terms spec)"
    and l: "lines = concat (map term_lines (spec_terms spec))"
    by (auto simp: parse_highlight_lines_terms split: if_splits)
  from x l obtain c where c: "c \<in> set (spec_terms spec)" and xc: "x \<in> set (term_lines c)"
    by auto
  from wf c have wfc: "wf_term c" by (simp add: list_all_iff)
  show "0 < x"
  proof (cases "single_term c")
    case True
    with xc have "x = int_value (py_strip c)" by (simp add: term_lines_def)
    with assms(2) c True show ?thesis by blast
  next
    case False
    with wfc have r: "range_term c" by (simp add: wf_term_def)
    from False xc have "range_start c \<le> x" by (simp add: term_lines_def)
    moreover from assms(2) c r have "0 < range_start c" by blast
    ultimately show ?thesis by simp
  qed
qed

theorem parse_highlight_lines_positive_witness:
  "parse_highlight_lines ''1-3,5'' = Some [1, 2, 3, 5]
   \<and> list_all (\<lambda>c. (single_term c \<longrightarrow> 0 < int_value (py_strip c)) \<and>
                    (range_term c \<longrightarrow> 0 < range_start c)) (spec_terms ''1-3,5'')
   \<and> list_all (\<lambda>x. 0 < x) [1, 2, 3, 5::int]"
proof -
  have h1: "parse_highlight_lines ''1-3,5'' = Some [1, 2, 3, 5]" by code_simp
  have h2: "list_all (\<lambda>c. (single_term c \<longrightarrow> 0 < int_value (py_strip c)) \<and>
                    (range_term c \<longrightarrow> 0 < range_start c)) (spec_terms ''1-3,5'')"
    by code_simp
  from h2 have h2': "\<forall>c\<in>set (spec_terms ''1-3,5'').
           (single_term c \<longrightarrow> 0 < int_value (py_strip c)) \<and>
           (range_term c \<longrightarrow> 0 < range_start c)"
    by (simp only: list_all_iff)
  from parse_highlight_lines_positive[OF h1 h2']
  have "list_all (\<lambda>x. 0 < x) [1, 2, 3, 5::int]" by (simp only: list_all_iff)
  with h1 h2 show ?thesis by blast
qed

lemma not_py_isspace: "\<not> py_isspace t \<longleftrightarrow> t = [] \<or> (\<exists>ch\<in>set t. \<not> isspace_char ch)"
  by (auto simp: py_isspace_def list_all_iff)

text \<open>
  Claim C7. When the \<open>language\<close> attribute names no known lexer, the handler of
  \<open>ClassNotFound\<close> calls \<open>map\<close> with the generator first and the \<open>lambda\<close> second, and
  \<open>map\<close> raises \<open>TypeError\<close> before the message that names the language is built.
  \<open>prepare\<close> so raises \<open>TypeError: 'function' object is not iterable\<close>, here for the
  language \<open>klingon\<close>, and not the exception whose message names the language and lists the
  allowed ones.
\<close>

theorem prepare_unknown_language_TypeError:
  "language_block env (Some l) =
     (if get_lexer_by_name env l then None
      else Some (TypeError ([SQ] @ ''function'' @ [SQ] @ '' object is not iterable'')))
   \<and> prepare sample_env \<lparr>el_attrib = [(''language'', ''klingon'')], el_text = None\<rparr> =
       Inl (TypeError ([SQ] @ ''function'' @ [SQ] @ '' object is not iterable''))"
  by (simp add: language_block_def py_map_def prepare_def sample_env_def LANGUAGE_DEFAULT_def)

text \<open>
  Claim C8. When the statements before it raise nothing, \<open>prepare\<close> raises the exception
  \<open>Existing code cannot be added inside html element when "source-file-name" attribute is used.\<close>
  exactly when the attribute \<open>source-file-name\<close> is given and the text of the element is
  present and \<open>isspace\<close> does not hold of it. The parser gives an element with no text the
  text \<open>None\<close>, not the empty string; for such an element the exception is raised exactly
  when \<open>source-file-name\<close> is given and the text holds a character that is not whitespace.
  With no text, or with whitespace only, the check passes.
\<close>

theorem prepare_inline_text_with_source_file:
  assumes "check_attribs env element [] optional_attribs = None"
    and "language_block env (get_string_attrib env element ''language'' LANGUAGE_DEFAULT) = None"
  shows "((prepare env element =
            Inl (Exception (''Existing code cannot be added inside html element when '' @
                            [DQ] @ ''source-file-name'' @ [DQ] @ '' attribute is used.'')))
          \<longleftrightarrow>
          (get_string_attrib env element ''source-file-name'' SOURCE_FILE_NAME_DEFAULT \<noteq> None \<and>
           (\<exists>t. el_text element = Some t \<and> \<not> py_isspace t)))
         \<and>
         (el_text element \<noteq> Some [] \<longrightarrow>
          ((prepare env element =
            Inl (Exception (''Existing code cannot be added inside html element when '' @
                            [DQ] @ ''source-file-name'' @ [DQ] @ '' attribute is used.'')))
          \<longleftrightarrow>
          (get_string_attrib env element ''source-file-name'' SOURCE_FILE_NAME_DEFAULT \<noteq> None \<and>
           (\<exists>t. el_text element = Some t \<and> (\<exists>ch\<in>set t. \<not> isspace_char ch)))))"
proof -
  have a: "(prepare env element =
            Inl (Exception (''Existing code cannot be added inside html element when '' @
                            [DQ] @ ''source-file-name'' @ [DQ] @ '' attribute is used.'')))
          \<longleftrightarrow>
          (get_string_attrib env element ''source-file-name'' SOURCE_FILE_NAME_DEFAULT \<noteq> None \<and>
           (\<exists>t. el_text element = Some t \<and> \<not> py_isspace t))"
    using assms by (rule prepare_source_file_block_raises)
  have b: "el_text element \<noteq> Some [] \<Longrightarrow>
      (\<exists>t. el_text element = Some t \<and> \<not> py_isspace t) \<longleftrightarrow>
      (\<exists>t. el_text element = Some t \<and> (\<exists>ch\<in>set t. \<not> isspace_char ch))"
    using not_py_isspace by auto
  from a b show ?thesis by blast
qed

theorem prepare_inline_text_with_source_file_witness:
  "check_attribs sample_env
     \<lparr>el_attrib = [(''source-file-name'', ''a.py'')], el_text = Some ''x = 1''\<rparr>
     [] optional_attribs = None
   \<and> language_block sample_env
       (get_string_attrib sample_env
          \<lparr>el_attrib = [(''source-file-name'', ''a.py'')], el_text = Some ''x = 1''\<rparr>
          ''language'' LANGUAGE_DEFAULT) = None
   \<and> el_text \<lparr>el_attrib = [(''source-file-name'', ''a.py'')], el_text = Some ''x = 1''\<rparr> \<noteq> Some []
   \<and> prepare sample_env
       \<lparr>el_attrib = [(''source-file-name'', ''a.py'')], el_text = Some ''x = 1''\<rparr> =
       Inl (Exception (''Existing code cannot be added inside html element when '' @
                       [DQ] @ ''source-file-name'' @ [DQ] @ '' attribute is used.''))
   \<and> prepare sample_env
       \<lparr>el_attrib = [(''source-file-name'', ''a.py'')], el_text = Some '' ''\<rparr> = Inr ()"
proof -
  define el where "el = \<lparr>el_attrib = [(''source-file-name'', ''a.py'')], el_text = Some ''x = 1''\<rparr>"
  define el2 where "el2 = \<lparr>el_attrib = [(''source-file-name'', ''a.py'')], el_text = Some '' ''\<rparr>"
  have h1: "check_attribs sample_env el [] optional_attribs = None"
    by (simp add: sample_env_def)
  have h2: "language_block sample_env
       (get_string_attrib sample_env el ''language'' LANGUAGE_DEFAULT) = None"
    by (simp add: sample_env_def el_def language_block_def LANGUAGE_DEFAULT_def)
  have h3: "el_text el \<noteq> Some []" by (simp add: el_def)
  have r: "get_string_attrib sample_env el ''source-file-name'' SOURCE_FILE_NAME_DEFAULT \<noteq> None \<and>
           (\<exists>t. el_text el = Some t \<and> (\<exists>ch\<in>set t. \<not> isspace_char ch))"
    by (simp add: sample_env_def el_def isspace_char_def)
  from prepare_inline_text_with_source_file[OF h1 h2] h3 r
  have c: "prepare sample_env el =
       Inl (Exception (''Existing code cannot be added inside html element when '' @
                       [DQ] @ ''source-file-name'' @ [DQ] @ '' attribute is used.''))"
    by blast
  have p: "prepare sample_env el2 = Inr ()"
    by (simp add: prepare_def sample_env_def el2_def language_block_def LANGUAGE_DEFAULT_def
          source_file_block_def py_isspace_def isspace_char_def highlight_lines_block_def
          HIGHLIGHT_LINES_DEFAULT_def SOURCE_FILE_NAME_DEFAULT_def)
  from h1 h2 h3 c p show ?thesis unfolding el_def el2_def by blast
qed

end
